theory Spec2Isabelle
  imports Main
begin

section \<open>The connection pools of car\_wash/dbpool.py\<close>

text \<open>
  The module defines two classes, \<^verbatim>\<open>RODBPool\<close> and \<^verbatim>\<open>RWDBPool\<close>. Their constructors,
  \<^verbatim>\<open>_create_connection\<close>, \<^verbatim>\<open>_get_connection\<close> and \<^verbatim>\<open>_put_connection\<close> are the same text
  (only the logger's name differs), so one record and one set of functions models both;
  the two context managers, \<^verbatim>\<open>RODBPool.connection\<close> and \<^verbatim>\<open>RWDBPool.transaction\<close>, are
  modelled separately.

  Connections and cursors are objects of the psycopg2 driver, which is not part of the
  module. They are modelled by their identity, a number that the driver hands out when
  the object is made.
\<close>

type_synonym conn = nat
type_synonym cursor = nat

subsection \<open>Exceptions\<close>

text \<open>
  The handlers of the module are \<^verbatim>\<open>except psycopg2.Error\<close>: what matters about an
  exception is whether it is an instance of \<^verbatim>\<open>psycopg2.Error\<close> (the class itself or one of
  its subclasses) or some other exception (\<^verbatim>\<open>ValueError\<close>, \<^verbatim>\<open>KeyError\<close>,
  \<^verbatim>\<open>KeyboardInterrupt\<close>, ...). Both carry their message.
\<close>

datatype pg_class =
    Error
  | InterfaceError
  | DatabaseError
  | DataError
  | OperationalError
  | IntegrityError
  | InternalError
  | ProgrammingError
  | NotSupportedError

datatype exn =
    Psycopg2 pg_class string
  | Other_Exception string

fun is_psycopg2_Error :: "exn \<Rightarrow> bool" where
  "is_psycopg2_Error (Psycopg2 k m) = True"
| "is_psycopg2_Error (Other_Exception m) = False"

subsection \<open>The pool object and the world around it\<close>

text \<open>
  The fields that \<^verbatim>\<open>__init__\<close> sets. \<^verbatim>\<open>self._log\<close> and \<^verbatim>\<open>self._lock\<close> have no field
  here: what the code does with them is recorded in the event trace below.
\<close>

record db_pool =
  pool :: "conn list"
  hostname :: string
  password :: string
  username :: string
  dbname :: string
  pool_size :: int
  conn_created :: int

text \<open>
  Every statement of the module that acts on the lock, on the two mutable fields, on the
  logger or on the driver leaves an event, in program order.
\<close>

datatype event =
    LockAcquire
  | LockRelease
  | PoolPop conn
  | PoolAppend conn
  | CreatedInc
  | Connect conn
  | ConnectFailed
  | LogInfo
  | Sleep
  | CursorOpen conn cursor
  | CursorFailed conn
  | Yield cursor
  | LogError
  | ConnClose conn
  | Commit conn
  | CursorClose cursor

record world =
  events :: "event list"
  next_conn :: nat
  next_cursor :: nat

definition emit :: "event \<Rightarrow> world \<Rightarrow> world" where
  "emit e w = w\<lparr>events := events w @ [e]\<rparr>"

definition initial_world :: world where
  "initial_world = \<lparr>events = [], next_conn = 0, next_cursor = 0\<rparr>"

text \<open>\<^verbatim>\<open>__init__\<close>: an empty pool, nothing created yet.\<close>

definition init_pool :: "string \<Rightarrow> string \<Rightarrow> string \<Rightarrow> string \<Rightarrow> int \<Rightarrow> db_pool" where
  "init_pool h pw u db n =
     \<lparr>pool = [], hostname = h, password = pw, username = u, dbname = db,
      pool_size = n, conn_created = 0\<rparr>"

subsection \<open>Creating, getting and putting a connection\<close>

text \<open>
  \<^verbatim>\<open>_create_connection\<close> returns what \<^verbatim>\<open>psycopg2.connect\<close> returns, or raises what it
  raises. Whether the driver fails is not decided by the module: it is the parameter
  \<open>f\<close> (\<open>None\<close>: the driver returns a new connection object; \<open>Some e\<close>: it raises \<open>e\<close>).
\<close>

definition create_connection :: "exn option \<Rightarrow> db_pool \<Rightarrow> world \<Rightarrow> (exn + conn) \<times> world" where
  "create_connection f p w =
     (case f of
        Some e \<Rightarrow> (Inl e, emit ConnectFailed w)
      | None \<Rightarrow> (Inr (next_conn w), emit (Connect (next_conn w)) (w\<lparr>next_conn := next_conn w + 1\<rparr>)))"

text \<open>
  One pass through the body of the \<^verbatim>\<open>while not connection\<close> loop of
  \<^verbatim>\<open>_get_connection\<close>. The whole body is inside \<^verbatim>\<open>with self._lock\<close>, the
  \<^verbatim>\<open>time.sleep(0.1)\<close> included; the lock is released when the block is left, also when
  \<^verbatim>\<open>_create_connection\<close> raises.
\<close>

datatype pass = Got conn | Raised exn | Retry

definition get_connection_body :: "exn option \<Rightarrow> db_pool \<times> world \<Rightarrow> pass \<times> db_pool \<times> world" where
  "get_connection_body f s =
     (case s of (p, w) \<Rightarrow>
        let w1 = emit LockAcquire w in
        if length (pool p) > 0 then
          (Got (last (pool p)),
           p\<lparr>pool := butlast (pool p)\<rparr>,
           emit LockRelease (emit (PoolPop (last (pool p))) w1))
        else if conn_created p < pool_size p then
          (case create_connection f p w1 of
             (Inl e, w2) \<Rightarrow> (Raised e, p, emit LockRelease w2)
           | (Inr c, w2) \<Rightarrow>
               (Got c, p\<lparr>conn_created := conn_created p + 1\<rparr>,
                emit LockRelease (emit CreatedInc w2)))
        else (Retry, p, emit LockRelease (emit Sleep (emit LogInfo w1))))"

text \<open>
  The loop itself. A connection object is always true in Python, so the loop ends as soon
  as a pass got a connection; it is left by the exception when the factory raises; and
  it goes round again after the sleep. It need not end: \<open>None\<close> is the call that never
  returns.
\<close>

partial_function (option) get_connection ::
  "exn option \<Rightarrow> db_pool \<times> world \<Rightarrow> ((exn + conn) \<times> db_pool \<times> world) option" where
  "get_connection f s =
     (case get_connection_body f s of
        (Got c, s') \<Rightarrow> Some (Inr c, s')
      | (Raised e, s') \<Rightarrow> Some (Inl e, s')
      | (Retry, s') \<Rightarrow> get_connection f s')"

text \<open>\<^verbatim>\<open>_put_connection\<close>: \<^verbatim>\<open>self._pool.append(conn)\<close>, and nothing else.\<close>

definition put_connection :: "conn \<Rightarrow> db_pool \<times> world \<Rightarrow> db_pool \<times> world" where
  "put_connection c s =
     (case s of (p, w) \<Rightarrow> (p\<lparr>pool := pool p @ [c]\<rparr>, emit (PoolAppend c) w))"

subsection \<open>The two context managers\<close>

text \<open>
  \<^verbatim>\<open>conn.cursor()\<close>, \<^verbatim>\<open>conn.commit()\<close>, \<^verbatim>\<open>conn.close()\<close> and \<^verbatim>\<open>cursor_.close()\<close> are
  calls into the driver. Whether \<^verbatim>\<open>cursor()\<close> and \<^verbatim>\<open>commit()\<close> raise is again a
  parameter (\<open>None\<close>: the call returns); the two \<^verbatim>\<open>close()\<close> calls only mark the handle
  closed.
\<close>

definition conn_cursor :: "exn option \<Rightarrow> conn \<Rightarrow> world \<Rightarrow> (exn + cursor) \<times> world" where
  "conn_cursor g c w =
     (case g of
        Some e \<Rightarrow> (Inl e, emit (CursorFailed c) w)
      | None \<Rightarrow>
          (Inr (next_cursor w),
           emit (CursorOpen c (next_cursor w)) (w\<lparr>next_cursor := next_cursor w + 1\<rparr>)))"

definition conn_commit :: "exn option \<Rightarrow> conn \<Rightarrow> world \<Rightarrow> exn option \<times> world" where
  "conn_commit cm c w = (cm, emit (Commit c) w)"

text \<open>
  A \<^verbatim>\<open>with pool.connection() as cursor_:\<close> statement. The generator runs up to its
  \<^verbatim>\<open>yield\<close>, the body of the \<^verbatim>\<open>with\<close> statement runs with the cursor (\<open>work\<close>: the value
  it computes, or the exception it raises), and \<^verbatim>\<open>contextlib\<close> resumes the generator: at
  the \<^verbatim>\<open>else\<close> clause when the body ended normally, by throwing the body's exception at
  the \<^verbatim>\<open>yield\<close> otherwise. Only an instance of \<^verbatim>\<open>psycopg2.Error\<close> is caught by the
  handler; the \<^verbatim>\<open>finally\<close> clause runs in every case. The result is what the statement
  gives its caller: the body's value, or the exception that leaves the statement.
  \<^verbatim>\<open>_get_connection\<close> and \<^verbatim>\<open>conn.cursor()\<close> are called before the \<^verbatim>\<open>try\<close>.
  The body is the caller's code: the trace records that it ran (\<open>Yield\<close>), not what it did
  with the cursor.
\<close>

definition connection ::
  "exn option \<Rightarrow> exn option \<Rightarrow> (cursor \<Rightarrow> exn + 'a) \<Rightarrow> db_pool \<times> world
     \<Rightarrow> ((exn + 'a) \<times> db_pool \<times> world) option" where
  "connection f g work s =
     (case get_connection f s of
        None \<Rightarrow> None
      | Some (Inl e, s1) \<Rightarrow> Some (Inl e, s1)
      | Some (Inr c, p1, w1) \<Rightarrow>
          (case conn_cursor g c w1 of
             (Inl e, w2) \<Rightarrow> Some (Inl e, p1, w2)
           | (Inr k, w2) \<Rightarrow>
               (case work k of
                  Inl e \<Rightarrow>
                    if is_psycopg2_Error e then
                      Some (Inl (Psycopg2 Error ''Invalid query.''), p1,
                            emit (CursorClose k)
                              (emit (ConnClose c) (emit LogError (emit (Yield k) w2))))
                    else Some (Inl e, p1, emit (CursorClose k) (emit (Yield k) w2))
                | Inr v \<Rightarrow>
                    (case put_connection c (p1, emit (Yield k) w2) of
                       (p3, w3) \<Rightarrow> Some (Inr v, p3, emit (CursorClose k) w3)))))"

text \<open>
  \<^verbatim>\<open>RWDBPool.transaction\<close> differs in its \<^verbatim>\<open>else\<close> clause: \<^verbatim>\<open>conn.commit()\<close>, then
  \<^verbatim>\<open>self._put_connection(conn)\<close>. An exception raised in an \<^verbatim>\<open>else\<close> clause is not
  handled by the \<^verbatim>\<open>except\<close> clauses of the same \<^verbatim>\<open>try\<close>: when \<^verbatim>\<open>commit()\<close> raises, only
  the \<^verbatim>\<open>finally\<close> clause runs and the exception leaves the statement as it is.
\<close>

definition transaction ::
  "exn option \<Rightarrow> exn option \<Rightarrow> (cursor \<Rightarrow> exn + 'a) \<Rightarrow> exn option \<Rightarrow> db_pool \<times> world
     \<Rightarrow> ((exn + 'a) \<times> db_pool \<times> world) option" where
  "transaction f g work cm s =
     (case get_connection f s of
        None \<Rightarrow> None
      | Some (Inl e, s1) \<Rightarrow> Some (Inl e, s1)
      | Some (Inr c, p1, w1) \<Rightarrow>
          (case conn_cursor g c w1 of
             (Inl e, w2) \<Rightarrow> Some (Inl e, p1, w2)
           | (Inr k, w2) \<Rightarrow>
               (case work k of
                  Inl e \<Rightarrow>
                    if is_psycopg2_Error e then
                      Some (Inl (Psycopg2 Error ''Invalid query.''), p1,
                            emit (CursorClose k)
                              (emit (ConnClose c) (emit LogError (emit (Yield k) w2))))
                    else Some (Inl e, p1, emit (CursorClose k) (emit (Yield k) w2))
                | Inr v \<Rightarrow>
                    (case conn_commit cm c (emit (Yield k) w2) of
                       (Some e, w3) \<Rightarrow> Some (Inl e, p1, emit (CursorClose k) w3)
                     | (None, w3) \<Rightarrow>
                         (case put_connection c (p1, w3) of
                            (p4, w4) \<Rightarrow> Some (Inr v, p4, emit (CursorClose k) w4))))))"

subsection \<open>Sequences of operations, and what is read off the trace\<close>

text \<open>
  Threads interleave at the passes of the acquiring loop and at the calls of
  \<^verbatim>\<open>_put_connection\<close>: a state the pool can reach is the result of a sequence of these.
\<close>

datatype op = Get_pass "exn option" | Put conn

fun step :: "op \<Rightarrow> db_pool \<times> world \<Rightarrow> db_pool \<times> world" where
  "step (Get_pass f) s = snd (get_connection_body f s)"
| "step (Put c) s = put_connection c s"

definition run :: "op list \<Rightarrow> db_pool \<times> world \<Rightarrow> db_pool \<times> world" where
  "run ops s = fold step ops s"

text \<open>How often an event is in the trace, and the events a call has added to it.\<close>

definition calls :: "event \<Rightarrow> world \<Rightarrow> nat" where
  "calls e w = count_list (events w) e"

definition added :: "world \<Rightarrow> world \<Rightarrow> event list" where
  "added w w' = drop (length (events w)) (events w')"

fun is_Connect :: "event \<Rightarrow> bool" where
  "is_Connect (Connect c) = True"
| "is_Connect e = False"

definition connections_made :: "world \<Rightarrow> int" where
  "connections_made w = int (length (filter is_Connect (events w)))"

text \<open>
  The lock discipline of a trace: every event that \<open>m\<close> selects happens between a
  \<open>LockAcquire\<close> and the next \<open>LockRelease\<close>. \<open>held\<close> says whether the lock is held where
  the trace starts.
\<close>

fun under_lock :: "(event \<Rightarrow> bool) \<Rightarrow> bool \<Rightarrow> event list \<Rightarrow> bool" where
  "under_lock m held [] = True"
| "under_lock m held (LockAcquire # es) = under_lock m True es"
| "under_lock m held (LockRelease # es) = under_lock m False es"
| "under_lock m held (e # es) = ((m e \<longrightarrow> held) \<and> under_lock m held es)"

fun held_after :: "bool \<Rightarrow> event list \<Rightarrow> bool" where
  "held_after held [] = held"
| "held_after held (LockAcquire # es) = held_after True es"
| "held_after held (LockRelease # es) = held_after False es"
| "held_after held (e # es) = held_after held es"

fun mutates :: "event \<Rightarrow> bool" where
  "mutates (PoolPop c) = True"
| "mutates (PoolAppend c) = True"
| "mutates CreatedInc = True"
| "mutates e = False"

fun pops_or_counts :: "event \<Rightarrow> bool" where
  "pops_or_counts (PoolPop c) = True"
| "pops_or_counts CreatedInc = True"
| "pops_or_counts e = False"

text \<open>
  Two properties of a reachable state. The first is about the lock: removing from the
  idle list and counting happen inside \<^verbatim>\<open>with self._lock\<close>, and the lock is free between
  operations. The second is about the counter: it counts the connections the factory has
  returned, and it stays between 0 and the pool size (or at 0, for a pool size below 0).
\<close>

definition lock_respected :: "world \<Rightarrow> bool" where
  "lock_respected w \<longleftrightarrow>
     under_lock pops_or_counts False (events w) \<and> \<not> held_after False (events w)"

definition within_capacity :: "db_pool \<times> world \<Rightarrow> bool" where
  "within_capacity s \<longleftrightarrow>
     0 \<le> conn_created (fst s) \<and> conn_created (fst s) \<le> max 0 (pool_size (fst s))
     \<and> connections_made (snd s) = conn_created (fst s)"

text \<open>What a call of a context manager left behind, when it returned.\<close>

fun outcome_of :: "('r \<times> db_pool \<times> world) option \<Rightarrow> 'r option" where
  "outcome_of None = None"
| "outcome_of (Some (r, p, w)) = Some r"

fun pool_of :: "('r \<times> db_pool \<times> world) option \<Rightarrow> db_pool option" where
  "pool_of None = None"
| "pool_of (Some (r, p, w)) = Some p"

fun world_of :: "('r \<times> db_pool \<times> world) option \<Rightarrow> world option" where
  "world_of None = None"
| "world_of (Some (r, p, w)) = Some w"

subsection \<open>Concrete pools and units of work\<close>

definition demo_pool :: db_pool where
  "demo_pool = init_pool ''db.local'' ''secret'' ''washer'' ''car_wash'' 2"

definition counting_work :: "cursor \<Rightarrow> exn + nat" where
  "counting_work k = Inr 42"

definition bad_query_work :: "cursor \<Rightarrow> exn + nat" where
  "bad_query_work k = Inl (Psycopg2 ProgrammingError ''syntax error at or near FROM'')"

definition value_error_work :: "cursor \<Rightarrow> exn + nat" where
  "value_error_work k = Inl (Other_Exception ''ValueError: invalid literal for int()'')"

definition serialization_failure :: exn where
  "serialization_failure = Psycopg2 OperationalError ''could not serialize access''"

section \<open>What one pass and the whole loop compute\<close>

text \<open>The three branches of the loop body, with the trace written out.\<close>

lemma body_cases:
  "get_connection_body f (p, w) =
     (if pool p \<noteq> [] then
        (Got (last (pool p)), p\<lparr>pool := butlast (pool p)\<rparr>,
         w\<lparr>events := events w @ [LockAcquire, PoolPop (last (pool p)), LockRelease]\<rparr>)
      else if conn_created p < pool_size p then
        (case f of
           Some e \<Rightarrow> (Raised e, p, w\<lparr>events := events w @ [LockAcquire, ConnectFailed, LockRelease]\<rparr>)
         | None \<Rightarrow>
             (Got (next_conn w), p\<lparr>conn_created := conn_created p + 1\<rparr>,
              w\<lparr>events := events w @ [LockAcquire, Connect (next_conn w), CreatedInc, LockRelease],
                next_conn := next_conn w + 1\<rparr>))
      else (Retry, p, w\<lparr>events := events w @ [LockAcquire, LogInfo, Sleep, LockRelease]\<rparr>))"
  by (simp add: get_connection_body_def create_connection_def emit_def Let_def split: option.splits)

text \<open>
  A pass that sleeps leaves the pool object as it was, and the branch taken depends on the
  pool object only: alone, the next pass sleeps again.
\<close>

lemma retry_again:
  "get_connection_body f (p, w) = (Retry, p', w') \<Longrightarrow> p' = p \<and> fst (get_connection_body f (p, w'')) = Retry"
  by (auto simp: body_cases split: if_splits option.splits)

text \<open>So a call that returns has returned from its first pass.\<close>

lemma returns_first_pass:
  assumes ret: "get_connection f s = Some y"
  shows "fst (get_connection_body f s) \<noteq> Retry"
proof (rule get_connection.raw_induct
    [where P = "\<lambda>f s y. fst (get_connection_body f s) \<noteq> Retry", OF _ ret])
  fix get :: "exn option \<Rightarrow> db_pool \<times> world \<Rightarrow> ((exn + conn) \<times> db_pool \<times> world) option"
  fix f s y
  assume IH: "\<And>f s y. get f s = Some y \<Longrightarrow> fst (get_connection_body f s) \<noteq> Retry"
  assume eq: "(case get_connection_body f s of
        (Got c, s') \<Rightarrow> Some (Inr c, s')
      | (Raised e, s') \<Rightarrow> Some (Inl e, s')
      | (Retry, s') \<Rightarrow> get f s') = Some y"
  show "fst (get_connection_body f s) \<noteq> Retry"
  proof
    assume r: "fst (get_connection_body f s) = Retry"
    obtain p w where s: "s = (p, w)" by (cases s)
    obtain p' w' where b: "get_connection_body f (p, w) = (Retry, p', w')"
      using r s by (cases "get_connection_body f (p, w)") auto
    from eq have "get f (p', w') = Some y" unfolding s b by simp
    then have "fst (get_connection_body f (p', w')) \<noteq> Retry" by (rule IH)
    moreover from retry_again[OF b] have "p' = p" "fst (get_connection_body f (p, w')) = Retry" by auto
    ultimately show False by simp
  qed
qed

lemma get_connection_eq:
  "get_connection f s =
     (case get_connection_body f s of
        (Got c, s') \<Rightarrow> Some (Inr c, s')
      | (Raised e, s') \<Rightarrow> Some (Inl e, s')
      | (Retry, s') \<Rightarrow> None)"
proof (cases "get_connection_body f s")
  case (fields r p' w')
  show ?thesis
  proof (cases r)
    case Retry
    have "get_connection f s = None"
    proof (cases "get_connection f s")
      case (Some y)
      from returns_first_pass[OF this] fields Retry show ?thesis by simp
    qed simp
    with fields Retry show ?thesis by simp
  qed (use fields in \<open>simp_all add: get_connection.simps\<close>)
qed

text \<open>
  \<^verbatim>\<open>_get_connection\<close> in closed form. In the last case the caller waits for another
  thread to put a connection back; with no other thread the call never returns.
\<close>

lemma get_connection_cases:
  "get_connection f (p, w) =
     (if pool p \<noteq> [] then
        Some (Inr (last (pool p)), p\<lparr>pool := butlast (pool p)\<rparr>,
              w\<lparr>events := events w @ [LockAcquire, PoolPop (last (pool p)), LockRelease]\<rparr>)
      else if conn_created p < pool_size p then
        (case f of
           Some e \<Rightarrow>
             Some (Inl e, p, w\<lparr>events := events w @ [LockAcquire, ConnectFailed, LockRelease]\<rparr>)
         | None \<Rightarrow>
             Some (Inr (next_conn w), p\<lparr>conn_created := conn_created p + 1\<rparr>,
                   w\<lparr>events := events w @ [LockAcquire, Connect (next_conn w), CreatedInc, LockRelease],
                     next_conn := next_conn w + 1\<rparr>))
      else None)"
  by (simp add: get_connection_eq body_cases split: option.splits)

lemma put_connection_eq:
  "put_connection c (p, w) = (p\<lparr>pool := pool p @ [c]\<rparr>, w\<lparr>events := events w @ [PoolAppend c]\<rparr>)"
  by (simp add: put_connection_def emit_def)

lemma get_connection_Inr:
  assumes "get_connection f (p, w) = Some (Inr c, p1, w1)"
  shows "(pool p \<noteq> [] \<and> c = last (pool p) \<and> p1 = p\<lparr>pool := butlast (pool p)\<rparr> \<and>
            w1 = w\<lparr>events := events w @ [LockAcquire, PoolPop c, LockRelease]\<rparr>)
         \<or> (pool p = [] \<and> conn_created p < pool_size p \<and> f = None \<and> c = next_conn w \<and>
            p1 = p\<lparr>conn_created := conn_created p + 1\<rparr> \<and>
            w1 = w\<lparr>events := events w @ [LockAcquire, Connect c, CreatedInc, LockRelease],
                   next_conn := next_conn w + 1\<rparr>)"
  using assms by (auto simp: get_connection_cases split: if_splits option.splits)

text \<open>What a call that returned a connection has left in the trace and in the pool.\<close>

lemma get_connection_trace:
  assumes "get_connection f (p, w) = Some (Inr c, p1, w1)"
  shows "(events w1 = events w @ [LockAcquire, PoolPop c, LockRelease]
          \<or> events w1 = events w @ [LockAcquire, Connect c, CreatedInc, LockRelease])
         \<and> next_cursor w1 = next_cursor w \<and> conn_created p \<le> conn_created p1
         \<and> pool_size p1 = pool_size p"
  using get_connection_Inr [OF assms] by auto

text \<open>A call that returns is one pass of the loop.\<close>

lemma get_connection_is_a_pass:
  "get_connection f s = Some (r, s') \<Longrightarrow> s' = step (Get_pass f) s"
  by (cases s) (auto simp: get_connection_cases body_cases split: if_splits option.splits)

text \<open>An acquisition from the fresh pool of size 2: the first connection is created.\<close>

lemma demo_acquire:
  "get_connection None (demo_pool, initial_world) =
     Some (Inr 0, demo_pool\<lparr>conn_created := 1\<rparr>,
           \<lparr>events = [LockAcquire, Connect 0, CreatedInc, LockRelease], next_conn = 1,
            next_cursor = 0\<rparr>)"
  by (simp add: get_connection_cases demo_pool_def init_pool_def initial_world_def)

lemma demo_pool_idle: "pool demo_pool = []"
  by (simp add: demo_pool_def init_pool_def)

section \<open>The context managers in closed form\<close>

text \<open>
  Once \<^verbatim>\<open>_get_connection\<close> has returned the connection \<open>c\<close> and \<^verbatim>\<open>conn.cursor()\<close> has
  returned, the rest of the statement is decided by what the body does and, for
  \<^verbatim>\<open>transaction\<close>, by what \<^verbatim>\<open>commit()\<close> does.
\<close>

lemma connection_after_acquire:
  assumes "get_connection f (p, w) = Some (Inr c, p1, w1)"
  shows "connection f None work (p, w) =
     (case work (next_cursor w1) of
        Inl e \<Rightarrow>
          if is_psycopg2_Error e then
            Some (Inl (Psycopg2 Error ''Invalid query.''), p1,
                  w1\<lparr>events := events w1 @
                       [CursorOpen c (next_cursor w1), Yield (next_cursor w1), LogError,
                        ConnClose c, CursorClose (next_cursor w1)],
                     next_cursor := next_cursor w1 + 1\<rparr>)
          else
            Some (Inl e, p1,
                  w1\<lparr>events := events w1 @
                       [CursorOpen c (next_cursor w1), Yield (next_cursor w1),
                        CursorClose (next_cursor w1)],
                     next_cursor := next_cursor w1 + 1\<rparr>)
      | Inr v \<Rightarrow>
          Some (Inr v, p1\<lparr>pool := pool p1 @ [c]\<rparr>,
                w1\<lparr>events := events w1 @
                     [CursorOpen c (next_cursor w1), Yield (next_cursor w1), PoolAppend c,
                      CursorClose (next_cursor w1)],
                   next_cursor := next_cursor w1 + 1\<rparr>))"
  using assms
  by (simp add: connection_def conn_cursor_def put_connection_def emit_def split: sum.splits)

lemma transaction_after_acquire:
  assumes "get_connection f (p, w) = Some (Inr c, p1, w1)"
  shows "transaction f None work cm (p, w) =
     (case work (next_cursor w1) of
        Inl e \<Rightarrow>
          if is_psycopg2_Error e then
            Some (Inl (Psycopg2 Error ''Invalid query.''), p1,
                  w1\<lparr>events := events w1 @
                       [CursorOpen c (next_cursor w1), Yield (next_cursor w1), LogError,
                        ConnClose c, CursorClose (next_cursor w1)],
                     next_cursor := next_cursor w1 + 1\<rparr>)
          else
            Some (Inl e, p1,
                  w1\<lparr>events := events w1 @
                       [CursorOpen c (next_cursor w1), Yield (next_cursor w1),
                        CursorClose (next_cursor w1)],
                     next_cursor := next_cursor w1 + 1\<rparr>)
      | Inr v \<Rightarrow>
          (case cm of
             Some e \<Rightarrow>
               Some (Inl e, p1,
                     w1\<lparr>events := events w1 @
                          [CursorOpen c (next_cursor w1), Yield (next_cursor w1), Commit c,
                           CursorClose (next_cursor w1)],
                        next_cursor := next_cursor w1 + 1\<rparr>)
           | None \<Rightarrow>
               Some (Inr v, p1\<lparr>pool := pool p1 @ [c]\<rparr>,
                     w1\<lparr>events := events w1 @
                          [CursorOpen c (next_cursor w1), Yield (next_cursor w1), Commit c,
                           PoolAppend c, CursorClose (next_cursor w1)],
                        next_cursor := next_cursor w1 + 1\<rparr>)))"
  using assms
  by (simp add: transaction_def conn_cursor_def conn_commit_def put_connection_def emit_def
      split: sum.splits option.splits)

section \<open>Traces of sequences of operations\<close>

lemma held_after_append: "held_after h (es @ fs) = held_after (held_after h es) fs"
  by (induction h es rule: held_after.induct) simp_all

lemma under_lock_append:
  "under_lock m h (es @ fs) = (under_lock m h es \<and> under_lock m (held_after h es) fs)"
  by (induction m h es rule: under_lock.induct) simp_all

text \<open>
  The events one operation adds: a pass brackets what it does with the lock, a put adds
  its append and no lock event.
\<close>

lemma step_events:
  "\<exists>es. events (snd (step x (p, w))) = events w @ es
        \<and> under_lock pops_or_counts False es \<and> \<not> held_after False es"
  by (cases x) (simp_all add: body_cases put_connection_eq split: option.splits)

lemma step_lock_respected:
  assumes "lock_respected (snd s)"
  shows "lock_respected (snd (step x s))"
proof -
  obtain p w where s: "s = (p, w)" by (cases s)
  from step_events [of x p w] obtain es where
    es: "events (snd (step x (p, w))) = events w @ es"
      "under_lock pops_or_counts False es" "\<not> held_after False es"
    by blast
  with assms s show ?thesis
    by (simp add: lock_respected_def under_lock_append held_after_append)
qed

lemma run_lock_respected: "lock_respected (snd s) \<Longrightarrow> lock_respected (snd (run ops s))"
  unfolding run_def
  by (induction ops arbitrary: s) (simp_all add: step_lock_respected)

lemma step_pool_size: "pool_size (fst (step x s)) = pool_size (fst s)"
  by (cases s; cases x) (simp_all add: body_cases put_connection_eq split: option.splits)

lemma step_within_capacity: "within_capacity s \<Longrightarrow> within_capacity (step x s)"
  by (cases s; cases x)
    (auto simp: within_capacity_def connections_made_def body_cases put_connection_eq
      split: option.splits)

lemma run_pool_size: "pool_size (fst (run ops s)) = pool_size (fst s)"
  unfolding run_def by (induction ops arbitrary: s) (simp_all add: step_pool_size)

lemma run_within_capacity: "within_capacity s \<Longrightarrow> within_capacity (run ops s)"
  unfolding run_def by (induction ops arbitrary: s) (simp_all add: step_within_capacity)

lemma init_within_capacity: "within_capacity (init_pool h pw u db n, initial_world)"
  by (simp add: within_capacity_def init_pool_def initial_world_def connections_made_def)

section \<open>Acquiring and releasing\<close>

text \<open>
  C6. When the idle list \<^verbatim>\<open>_pool\<close> is not empty, \<^verbatim>\<open>_get_connection\<close> returns its last
  element, removes it, and neither calls the factory nor changes \<^verbatim>\<open>_conn_created\<close>; the
  element it returns is the one most recently put back (second conjunct: a put followed by
  a get returns the connection just put and restores the pool object). When the idle list
  is empty and \<^verbatim>\<open>_conn_created < _pool_size\<close>, and the factory returns a connection,
  \<^verbatim>\<open>_get_connection\<close> returns that new connection and \<^verbatim>\<open>_conn_created\<close> has grown by one.
  In both cases the call returns.
\<close>

theorem get_connection_pop_or_create:
  "(pool p \<noteq> [] \<longrightarrow>
      get_connection f (p, w) =
        Some (Inr (last (pool p)), p\<lparr>pool := butlast (pool p)\<rparr>,
              w\<lparr>events := events w @ [LockAcquire, PoolPop (last (pool p)), LockRelease]\<rparr>))
   \<and> get_connection f (put_connection c (p, w)) =
        Some (Inr c, p, w\<lparr>events := events w @ [PoolAppend c, LockAcquire, PoolPop c, LockRelease]\<rparr>)
   \<and> (pool p = [] \<and> conn_created p < pool_size p \<longrightarrow>
      get_connection None (p, w) =
        Some (Inr (next_conn w), p\<lparr>conn_created := conn_created p + 1\<rparr>,
              w\<lparr>events := events w @ [LockAcquire, Connect (next_conn w), CreatedInc, LockRelease],
                next_conn := next_conn w + 1\<rparr>))"
  by (simp add: get_connection_cases put_connection_eq)

theorem get_connection_pop_or_create_witness:
  "get_connection None (demo_pool\<lparr>pool := [3, 5]\<rparr>, initial_world) =
     Some (Inr 5, demo_pool\<lparr>pool := [3]\<rparr>,
           initial_world\<lparr>events := [LockAcquire, PoolPop 5, LockRelease]\<rparr>)
   \<and> conn_created demo_pool < pool_size demo_pool
   \<and> get_connection None (demo_pool, initial_world) =
     Some (Inr 0, demo_pool\<lparr>conn_created := 1\<rparr>,
           initial_world\<lparr>events := [LockAcquire, Connect 0, CreatedInc, LockRelease], next_conn := 1\<rparr>)"
  using get_connection_pop_or_create [where p = "demo_pool\<lparr>pool := [3, 5]\<rparr>" and f = None
      and w = initial_world and c = 0]
    get_connection_pop_or_create [where p = demo_pool and f = None and w = initial_world and c = 0]
  by (simp add: demo_pool_def init_pool_def initial_world_def)

text \<open>
  C9. When \<^verbatim>\<open>psycopg2.connect\<close> raises inside \<^verbatim>\<open>_get_connection\<close> (it is called when the
  idle list is empty and \<^verbatim>\<open>_conn_created < _pool_size\<close>), the same exception leaves
  \<^verbatim>\<open>_get_connection\<close> and the pool object is unchanged: \<^verbatim>\<open>_conn_created\<close> is not
  incremented, the idle list is as it was, and the call has done nothing but take the
  lock, call the factory and release the lock. Conversely every exception that leaves
  \<^verbatim>\<open>_get_connection\<close> is the factory's, with the pool object unchanged.
\<close>

theorem factory_failure_leaves_pool:
  "(pool p = [] \<and> conn_created p < pool_size p \<longrightarrow>
      get_connection (Some e) (p, w) =
        Some (Inl e, p, w\<lparr>events := events w @ [LockAcquire, ConnectFailed, LockRelease]\<rparr>))
   \<and> (get_connection f (p, w) = Some (Inl e, p', w') \<longrightarrow>
        f = Some e \<and> p' = p \<and> added w w' = [LockAcquire, ConnectFailed, LockRelease])"
  by (auto simp: get_connection_cases added_def split: if_splits option.splits)

theorem factory_failure_leaves_pool_witness:
  "pool demo_pool = [] \<and> conn_created demo_pool < pool_size demo_pool
   \<and> get_connection (Some serialization_failure) (demo_pool, initial_world) =
       Some (Inl serialization_failure, demo_pool,
             initial_world\<lparr>events := [LockAcquire, ConnectFailed, LockRelease]\<rparr>)"
  using factory_failure_leaves_pool [where p = demo_pool and e = serialization_failure
      and w = initial_world]
  by (simp add: demo_pool_def init_pool_def initial_world_def)

text \<open>
  C10. \<^verbatim>\<open>_put_connection\<close> checks nothing. Putting the same connection back twice in a
  row leaves it twice more in the idle list, and the next two calls of
  \<^verbatim>\<open>_get_connection\<close> both return that same connection.
\<close>

theorem double_release_shares_connection:
  "put_connection c (put_connection c (p, w)) =
     (p\<lparr>pool := pool p @ [c, c]\<rparr>, w\<lparr>events := events w @ [PoolAppend c, PoolAppend c]\<rparr>)
   \<and> count_list (pool (fst (put_connection c (put_connection c (p, w))))) c = count_list (pool p) c + 2
   \<and> get_connection f (put_connection c (put_connection c (p, w))) =
       Some (Inr c, p\<lparr>pool := pool p @ [c]\<rparr>,
             w\<lparr>events := events w @ [PoolAppend c, PoolAppend c, LockAcquire, PoolPop c, LockRelease]\<rparr>)
   \<and> get_connection f'
        (p\<lparr>pool := pool p @ [c]\<rparr>,
         w\<lparr>events := events w @ [PoolAppend c, PoolAppend c, LockAcquire, PoolPop c, LockRelease]\<rparr>) =
       Some (Inr c, p,
             w\<lparr>events := events w @ [PoolAppend c, PoolAppend c, LockAcquire, PoolPop c, LockRelease,
                                       LockAcquire, PoolPop c, LockRelease]\<rparr>)"
  by (simp add: get_connection_cases put_connection_eq butlast_append)

theorem double_release_shares_connection_witness:
  "get_connection None (put_connection 7 (put_connection 7 (demo_pool, initial_world))) =
     Some (Inr 7, demo_pool\<lparr>pool := [7]\<rparr>,
           initial_world\<lparr>events := [PoolAppend 7, PoolAppend 7, LockAcquire, PoolPop 7, LockRelease]\<rparr>)
   \<and> get_connection None
        (demo_pool\<lparr>pool := [7]\<rparr>,
         initial_world\<lparr>events := [PoolAppend 7, PoolAppend 7, LockAcquire, PoolPop 7, LockRelease]\<rparr>) =
     Some (Inr 7, demo_pool,
           initial_world\<lparr>events := [PoolAppend 7, PoolAppend 7, LockAcquire, PoolPop 7, LockRelease,
                                     LockAcquire, PoolPop 7, LockRelease]\<rparr>)"
  using double_release_shares_connection [where p = demo_pool and c = 7 and w = initial_world
      and f = None and f' = None]
  by (simp add: demo_pool_def init_pool_def initial_world_def put_connection_def emit_def)

section \<open>The capacity of the pool\<close>

text \<open>
  C1. Take a pool made by \<^verbatim>\<open>__init__\<close> with pool size \<open>n\<close>, and any sequence of passes of
  the acquiring loop and of calls of \<^verbatim>\<open>_put_connection\<close>, in any interleaving and whatever
  the factory does (a call of \<^verbatim>\<open>_get_connection\<close> that returns is one such pass, by
  \<open>get_connection_is_a_pass\<close>). A pool size is a capacity, a number \<open>n \<ge> 0\<close>: then
  \<^verbatim>\<open>_conn_created\<close> never exceeds \<open>n\<close>. It is never negative, it is the number of
  connections the factory has returned, and the pool size never changes. A pass creates a
  connection only when the idle list is empty and \<^verbatim>\<open>_conn_created < _pool_size\<close>, and
  then the counter grows by one; a put never changes the counter. (With a pool size below
  0 nothing is ever created and the counter stays 0: \<open>run_within_capacity\<close>.)
\<close>

theorem created_never_exceeds_pool_size:
  assumes "0 \<le> n"
  shows "conn_created (fst (run ops (init_pool h pw u db n, initial_world))) \<le> n
   \<and> 0 \<le> conn_created (fst (run ops (init_pool h pw u db n, initial_world)))
   \<and> connections_made (snd (run ops (init_pool h pw u db n, initial_world))) =
       conn_created (fst (run ops (init_pool h pw u db n, initial_world)))
   \<and> pool_size (fst (run ops (init_pool h pw u db n, initial_world))) = n
   \<and> conn_created (fst (step (Get_pass f) (q, v))) =
       (if pool q = [] \<and> conn_created q < pool_size q \<and> f = None
        then conn_created q + 1 else conn_created q)
   \<and> conn_created (fst (step (Put c) (q, v))) = conn_created q"
proof -
  have "within_capacity (run ops (init_pool h pw u db n, initial_world))"
    by (rule run_within_capacity [OF init_within_capacity])
  moreover have "pool_size (fst (run ops (init_pool h pw u db n, initial_world))) = n"
    by (simp add: run_pool_size init_pool_def)
  ultimately show ?thesis
    using assms
    by (auto simp: within_capacity_def body_cases put_connection_eq split: option.splits)
qed

theorem created_never_exceeds_pool_size_witness:
  "(0::int) \<le> 2
   \<and> run [Get_pass None, Get_pass None, Get_pass None, Put 1, Get_pass None, Get_pass None]
        (demo_pool, initial_world) =
       (demo_pool\<lparr>conn_created := 2\<rparr>,
        \<lparr>events = [LockAcquire, Connect 0, CreatedInc, LockRelease,
                   LockAcquire, Connect 1, CreatedInc, LockRelease,
                   LockAcquire, LogInfo, Sleep, LockRelease,
                   PoolAppend 1,
                   LockAcquire, PoolPop 1, LockRelease,
                   LockAcquire, LogInfo, Sleep, LockRelease],
         next_conn = 2, next_cursor = 0\<rparr>)
   \<and> conn_created (fst (run [Get_pass None, Get_pass None, Get_pass None, Put 1, Get_pass None,
         Get_pass None] (demo_pool, initial_world))) \<le> 2"
  using created_never_exceeds_pool_size [where n = 2 and f = None and q = demo_pool
      and v = initial_world and c = 0
      and ops = "[Get_pass None, Get_pass None, Get_pass None, Put 1, Get_pass None, Get_pass None]"
      and h = "''db.local''" and pw = "''secret''" and u = "''washer''" and db = "''car_wash''"]
  by (simp add: run_def body_cases put_connection_eq demo_pool_def init_pool_def initial_world_def)

section \<open>The lock\<close>

text \<open>
  C7, as the code has it. In every sequence of operations, each removal from the idle list
  and each increment of \<^verbatim>\<open>_conn_created\<close> happens while the lock is held, and the lock
  is free after each operation. \<^verbatim>\<open>_put_connection\<close> appends to the idle list without
  taking the lock: the append is the only event it adds.
\<close>

theorem pop_and_count_under_lock:
  "under_lock pops_or_counts False (events (snd (run ops (p, initial_world))))
   \<and> \<not> held_after False (events (snd (run ops (p, initial_world))))
   \<and> added w (snd (put_connection c (q, w))) = [PoolAppend c]"
  using run_lock_respected [of "(p, initial_world)" ops]
  by (simp add: lock_respected_def initial_world_def put_connection_eq added_def)

theorem pop_and_count_under_lock_witness:
  "under_lock pops_or_counts False
     (events (snd (run [Get_pass None, Put 0, Get_pass None] (demo_pool, initial_world))))
   \<and> events (snd (run [Get_pass None, Put 0, Get_pass None] (demo_pool, initial_world))) =
       [LockAcquire, Connect 0, CreatedInc, LockRelease, PoolAppend 0,
        LockAcquire, PoolPop 0, LockRelease]"
  using pop_and_count_under_lock [where ops = "[Get_pass None, Put 0, Get_pass None]"
      and p = demo_pool]
  by (simp add: run_def body_cases put_connection_eq demo_pool_def init_pool_def initial_world_def)

text \<open>
  C7, as the specification states it, asks that every mutation, the append of
  \<^verbatim>\<open>_put_connection\<close> included, happens while the lock is held. After one acquisition and
  one release the trace holds an append outside the lock.
\<close>

theorem put_without_lock_counterexample:
  "events (snd (run [Get_pass None, Put 0] (demo_pool, initial_world))) =
     [LockAcquire, Connect 0, CreatedInc, LockRelease, PoolAppend 0]
   \<and> \<not> under_lock mutates False
         (events (snd (run [Get_pass None, Put 0] (demo_pool, initial_world))))"
  by (simp add: run_def body_cases put_connection_eq demo_pool_def init_pool_def initial_world_def)

section \<open>The unit of work ends normally\<close>

text \<open>
  C8. In \<^verbatim>\<open>with ro_db_pool.connection() as cursor_\<close>, when the body ends normally with
  the value \<open>v\<close>, the statement ends normally with \<open>v\<close>; the borrowed connection has been
  appended to the idle list once; and no \<^verbatim>\<open>commit()\<close> has been called on any connection.
\<close>

theorem connection_returns_value:
  assumes "get_connection f (p, w) = Some (Inr c, p1, w1)"
    and "work (next_cursor w1) = Inr v"
  shows "\<exists>w'. connection f None work (p, w) = Some (Inr v, p1\<lparr>pool := pool p1 @ [c]\<rparr>, w')
           \<and> added w1 w' =
               [CursorOpen c (next_cursor w1), Yield (next_cursor w1), PoolAppend c,
                CursorClose (next_cursor w1)]
           \<and> count_list (added w w') (PoolAppend c) = 1
           \<and> (\<forall>c'. Commit c' \<notin> set (added w w'))"
proof -
  from get_connection_trace [OF assms(1)]
  consider "events w1 = events w @ [LockAcquire, PoolPop c, LockRelease]"
    | "events w1 = events w @ [LockAcquire, Connect c, CreatedInc, LockRelease]"
    by blast
  then show ?thesis
    by cases (simp_all add: connection_after_acquire [OF assms(1)] assms(2) added_def)
qed

theorem connection_returns_value_witness:
  "get_connection None (demo_pool, initial_world) =
     Some (Inr 0, demo_pool\<lparr>conn_created := 1\<rparr>,
           \<lparr>events = [LockAcquire, Connect 0, CreatedInc, LockRelease], next_conn = 1,
            next_cursor = 0\<rparr>)
   \<and> counting_work 0 = Inr 42
   \<and> (\<exists>w'. connection None None counting_work (demo_pool, initial_world) =
          Some (Inr 42, demo_pool\<lparr>conn_created := 1, pool := [0]\<rparr>, w')
        \<and> count_list (added initial_world w') (PoolAppend 0) = 1
        \<and> (\<forall>c'. Commit c' \<notin> set (added initial_world w')))"
  using connection_returns_value [OF demo_acquire, where work = counting_work and v = 42]
    demo_acquire
  by (auto simp: counting_work_def demo_pool_def init_pool_def)

text \<open>
  C4. In \<^verbatim>\<open>with rw_db_pool.transaction() as cursor_\<close>, when the body ends normally,
  \<^verbatim>\<open>commit()\<close> is called on the borrowed connection exactly once, whatever \<^verbatim>\<open>commit()\<close>
  then does. When \<^verbatim>\<open>commit()\<close> returns, the connection is appended to the idle list exactly
  once, after the commit, and the statement ends normally with the body's value.
  (\<^verbatim>\<open>commit()\<close> raising is a failure of the statement, see C3.)
\<close>

theorem transaction_commits_then_puts:
  assumes "get_connection f (p, w) = Some (Inr c, p1, w1)"
    and "work (next_cursor w1) = Inr v"
  shows "\<exists>r p' w'. transaction f None work cm (p, w) = Some (r, p', w')
           \<and> count_list (added w w') (Commit c) = 1
           \<and> (cm = None \<longrightarrow>
                r = Inr v \<and> p' = p1\<lparr>pool := pool p1 @ [c]\<rparr>
                \<and> added w1 w' =
                    [CursorOpen c (next_cursor w1), Yield (next_cursor w1), Commit c,
                     PoolAppend c, CursorClose (next_cursor w1)]
                \<and> count_list (added w w') (PoolAppend c) = 1)"
proof -
  from get_connection_trace [OF assms(1)]
  consider "events w1 = events w @ [LockAcquire, PoolPop c, LockRelease]"
    | "events w1 = events w @ [LockAcquire, Connect c, CreatedInc, LockRelease]"
    by blast
  then show ?thesis
    by cases (simp_all add: transaction_after_acquire [OF assms(1)] assms(2) added_def
        split: option.splits)
qed

theorem transaction_commits_then_puts_witness:
  "get_connection None (demo_pool, initial_world) =
     Some (Inr 0, demo_pool\<lparr>conn_created := 1\<rparr>,
           \<lparr>events = [LockAcquire, Connect 0, CreatedInc, LockRelease], next_conn = 1,
            next_cursor = 0\<rparr>)
   \<and> counting_work 0 = Inr 42
   \<and> (\<exists>w'. transaction None None counting_work None (demo_pool, initial_world) =
          Some (Inr 42, demo_pool\<lparr>conn_created := 1, pool := [0]\<rparr>, w')
        \<and> count_list (added initial_world w') (Commit 0) = 1
        \<and> count_list (added initial_world w') (PoolAppend 0) = 1)"
  using transaction_commits_then_puts [OF demo_acquire, where work = counting_work and v = 42
      and cm = None]
    demo_acquire
  by (auto simp: counting_work_def demo_pool_def init_pool_def)

section \<open>The cursor\<close>

text \<open>
  C5. Once the cursor has been obtained from the borrowed connection, both statements
  return to their caller, and the last thing they have done is to close that cursor,
  exactly once: whether the body ended normally or raised (a \<^verbatim>\<open>psycopg2.Error\<close> or any
  other exception), and whether \<^verbatim>\<open>commit()\<close> returned or raised.
\<close>

theorem cursor_closed_on_every_path:
  assumes "get_connection f (p, w) = Some (Inr c, p1, w1)"
  shows "(\<exists>r p' w'. connection f None work (p, w) = Some (r, p', w')
            \<and> CursorOpen c (next_cursor w1) \<in> set (added w w')
            \<and> last (events w') = CursorClose (next_cursor w1)
            \<and> count_list (added w w') (CursorClose (next_cursor w1)) = 1)
       \<and> (\<exists>r p' w'. transaction f None work cm (p, w) = Some (r, p', w')
            \<and> CursorOpen c (next_cursor w1) \<in> set (added w w')
            \<and> last (events w') = CursorClose (next_cursor w1)
            \<and> count_list (added w w') (CursorClose (next_cursor w1)) = 1)"
proof -
  from get_connection_trace [OF assms(1)]
  consider "events w1 = events w @ [LockAcquire, PoolPop c, LockRelease]"
    | "events w1 = events w @ [LockAcquire, Connect c, CreatedInc, LockRelease]"
    by blast
  then show ?thesis
    by cases (simp_all add: connection_after_acquire [OF assms(1)]
        transaction_after_acquire [OF assms(1)] added_def split: sum.splits option.splits)
qed

theorem cursor_closed_on_every_path_witness:
  "get_connection None (demo_pool, initial_world) =
     Some (Inr 0, demo_pool\<lparr>conn_created := 1\<rparr>,
           \<lparr>events = [LockAcquire, Connect 0, CreatedInc, LockRelease], next_conn = 1,
            next_cursor = 0\<rparr>)
   \<and> (\<exists>r p' w'. transaction None None counting_work (Some serialization_failure)
                    (demo_pool, initial_world) = Some (r, p', w')
        \<and> last (events w') = CursorClose 0)
   \<and> (\<exists>r p' w'. connection None None bad_query_work (demo_pool, initial_world) = Some (r, p', w')
        \<and> last (events w') = CursorClose 0)"
  using cursor_closed_on_every_path [OF demo_acquire, where work = counting_work
      and cm = "Some serialization_failure"]
    cursor_closed_on_every_path [OF demo_acquire, where work = bad_query_work and cm = None]
    demo_acquire
  by auto

section \<open>The unit of work raises\<close>

text \<open>
  C2, as the code has it. When the body raises, in either statement, the pool object is left
  as \<^verbatim>\<open>_get_connection\<close> left it: the borrowed connection is not appended to the idle list
  and \<^verbatim>\<open>_conn_created\<close> is not decremented. The connection is closed (once) when the
  exception is an instance of \<^verbatim>\<open>psycopg2.Error\<close>, and the statement then raises
  \<^verbatim>\<open>psycopg2.Error('Invalid query.')\<close>; any other exception leaves the statement as it is
  and the connection is not closed.
\<close>

theorem failed_work_never_returns_connection:
  assumes "get_connection f (p, w) = Some (Inr c, p1, w1)"
    and "work (next_cursor w1) = Inl e"
  shows "(\<exists>r w'. connection f None work (p, w) = Some (Inl r, p1, w')
            \<and> r = (if is_psycopg2_Error e then Psycopg2 Error ''Invalid query.'' else e)
            \<and> PoolAppend c \<notin> set (added w w')
            \<and> count_list (added w w') (ConnClose c) = (if is_psycopg2_Error e then 1 else 0))
       \<and> (\<exists>r w'. transaction f None work cm (p, w) = Some (Inl r, p1, w')
            \<and> r = (if is_psycopg2_Error e then Psycopg2 Error ''Invalid query.'' else e)
            \<and> PoolAppend c \<notin> set (added w w')
            \<and> count_list (added w w') (ConnClose c) = (if is_psycopg2_Error e then 1 else 0))
       \<and> conn_created p \<le> conn_created p1"
proof -
  from get_connection_trace [OF assms(1)]
  have le: "conn_created p \<le> conn_created p1" by simp
  from get_connection_trace [OF assms(1)]
  consider "events w1 = events w @ [LockAcquire, PoolPop c, LockRelease]"
    | "events w1 = events w @ [LockAcquire, Connect c, CreatedInc, LockRelease]"
    by blast
  then show ?thesis
    by cases (simp_all add: connection_after_acquire [OF assms(1)]
        transaction_after_acquire [OF assms(1)] assms(2) added_def le)
qed

theorem failed_work_never_returns_connection_witness:
  "get_connection None (demo_pool, initial_world) =
     Some (Inr 0, demo_pool\<lparr>conn_created := 1\<rparr>,
           \<lparr>events = [LockAcquire, Connect 0, CreatedInc, LockRelease], next_conn = 1,
            next_cursor = 0\<rparr>)
   \<and> bad_query_work 0 = Inl (Psycopg2 ProgrammingError ''syntax error at or near FROM'')
   \<and> (\<exists>r w'. connection None None bad_query_work (demo_pool, initial_world) =
          Some (Inl r, demo_pool\<lparr>conn_created := 1\<rparr>, w')
        \<and> PoolAppend 0 \<notin> set (added initial_world w')
        \<and> count_list (added initial_world w') (ConnClose 0) = 1)"
  using failed_work_never_returns_connection [OF demo_acquire, where work = bad_query_work
      and e = "Psycopg2 ProgrammingError ''syntax error at or near FROM''" and cm = None]
    demo_acquire
  by (auto simp: bad_query_work_def demo_pool_def init_pool_def)

text \<open>
  C2, as the specification states it, asks that the connection is closed whatever the body
  raises. A body that raises \<^verbatim>\<open>ValueError\<close> leaves the connection open: no
  \<^verbatim>\<open>close()\<close> is called on it.
\<close>

theorem failed_work_counterexample:
  "connection None None value_error_work (demo_pool, initial_world) =
     Some (Inl (Other_Exception ''ValueError: invalid literal for int()''),
           demo_pool\<lparr>conn_created := 1\<rparr>,
           \<lparr>events = [LockAcquire, Connect 0, CreatedInc, LockRelease, CursorOpen 0 0, Yield 0,
                      CursorClose 0],
            next_conn = 1, next_cursor = 1\<rparr>)
   \<and> map_option (calls (ConnClose 0))
        (world_of (connection None None value_error_work (demo_pool, initial_world))) = Some 0"
  by (simp add: connection_after_acquire [OF demo_acquire] value_error_work_def calls_def)

text \<open>
  C3, as the code has it. When the body of \<^verbatim>\<open>with rw_db_pool.transaction()\<close> raises an
  instance of \<^verbatim>\<open>psycopg2.Error\<close>, of whatever subclass and with whatever message, the
  statement logs the error, closes the borrowed connection, closes the cursor, leaves the
  pool object as \<^verbatim>\<open>_get_connection\<close> left it, and raises
  \<^verbatim>\<open>psycopg2.Error('Invalid query.')\<close>.
\<close>

theorem psycopg2_error_in_work_is_invalid_query:
  assumes "get_connection f (p, w) = Some (Inr c, p1, w1)"
    and "work (next_cursor w1) = Inl (Psycopg2 cls msg)"
  shows "transaction f None work cm (p, w) =
           Some (Inl (Psycopg2 Error ''Invalid query.''), p1,
                 w1\<lparr>events := events w1 @
                      [CursorOpen c (next_cursor w1), Yield (next_cursor w1), LogError,
                       ConnClose c, CursorClose (next_cursor w1)],
                    next_cursor := next_cursor w1 + 1\<rparr>)"
  by (simp add: transaction_after_acquire [OF assms(1)] assms(2))

theorem psycopg2_error_in_work_is_invalid_query_witness:
  "get_connection None (demo_pool, initial_world) =
     Some (Inr 0, demo_pool\<lparr>conn_created := 1\<rparr>,
           \<lparr>events = [LockAcquire, Connect 0, CreatedInc, LockRelease], next_conn = 1,
            next_cursor = 0\<rparr>)
   \<and> bad_query_work 0 = Inl (Psycopg2 ProgrammingError ''syntax error at or near FROM'')
   \<and> transaction None None bad_query_work None (demo_pool, initial_world) =
        Some (Inl (Psycopg2 Error ''Invalid query.''), demo_pool\<lparr>conn_created := 1\<rparr>,
              \<lparr>events = [LockAcquire, Connect 0, CreatedInc, LockRelease, CursorOpen 0 0,
                         Yield 0, LogError, ConnClose 0, CursorClose 0],
               next_conn = 1, next_cursor = 1\<rparr>)"
  using psycopg2_error_in_work_is_invalid_query [OF demo_acquire, where work = bad_query_work
      and cls = ProgrammingError and msg = "''syntax error at or near FROM''" and cm = None]
    demo_acquire
  by (auto simp: bad_query_work_def demo_pool_def init_pool_def)

text \<open>
  C3, as the specification states it, covers every failure of the body and of the commit.
  A \<^verbatim>\<open>ValueError\<close> raised by the body leaves the statement unchanged, with the connection
  open. An error raised by \<^verbatim>\<open>commit()\<close> (which is called in the \<^verbatim>\<open>else\<close> clause, outside the
  reach of the handler) leaves the statement unchanged as well, with the connection neither
  closed nor put back.
\<close>

theorem invalid_query_counterexample:
  "transaction None None value_error_work None (demo_pool, initial_world) =
     Some (Inl (Other_Exception ''ValueError: invalid literal for int()''),
           demo_pool\<lparr>conn_created := 1\<rparr>,
           \<lparr>events = [LockAcquire, Connect 0, CreatedInc, LockRelease, CursorOpen 0 0, Yield 0,
                      CursorClose 0],
            next_conn = 1, next_cursor = 1\<rparr>)
   \<and> transaction None None counting_work (Some serialization_failure) (demo_pool, initial_world) =
     Some (Inl (Psycopg2 OperationalError ''could not serialize access''),
           demo_pool\<lparr>conn_created := 1\<rparr>,
           \<lparr>events = [LockAcquire, Connect 0, CreatedInc, LockRelease, CursorOpen 0 0, Yield 0,
                      Commit 0, CursorClose 0],
            next_conn = 1, next_cursor = 1\<rparr>)
   \<and> outcome_of (transaction None None value_error_work None (demo_pool, initial_world)) \<noteq>
       Some (Inl (Psycopg2 Error ''Invalid query.''))
   \<and> map_option (calls (ConnClose 0))
        (world_of (transaction None None value_error_work None (demo_pool, initial_world))) = Some 0
   \<and> outcome_of (transaction None None counting_work (Some serialization_failure)
        (demo_pool, initial_world)) \<noteq> Some (Inl (Psycopg2 Error ''Invalid query.''))
   \<and> map_option (calls (ConnClose 0))
        (world_of (transaction None None counting_work (Some serialization_failure)
           (demo_pool, initial_world))) = Some 0
   \<and> map_option pool
        (pool_of (transaction None None counting_work (Some serialization_failure)
           (demo_pool, initial_world))) = Some []"
  by (simp add: transaction_after_acquire [OF demo_acquire] value_error_work_def
      counting_work_def serialization_failure_def calls_def demo_pool_idle)

end
